theory Spec2Isabelle
  imports Complex_Main
begin

section \<open>The live session hook (src/hooks/useLiveSession.ts)\<close>

text \<open>
  The hook is event driven: every callback runs to its next \<^verbatim>\<open>await\<close> on the one UI thread.
  Each callback is a function from the hook's state to an outcome; an \<^verbatim>\<open>async\<close> function is
  cut at its \<^verbatim>\<open>await\<close>s into segments, and a suspended call is the value \<open>Awaiting\<close> carrying
  what its continuation closes over. Times are reals, and the one addition of doubles the
  hook performs (line 253) is a parameter of the model, so that nothing rests on exact sums.
\<close>

subsection \<open>Values\<close>

text \<open>A JavaScript string is its sequence of UTF-16 code units.\<close>

type_synonym js_string = "nat list"

definition lit :: "string \<Rightarrow> js_string" where
  "lit cs = map of_char cs"

text \<open>
  The addition of two doubles, rounded as the engine rounds it. It is left open; where a
  property needs it, it only needs that adding a non-negative number does not go below the
  first summand, as holds of doubles.
\<close>

type_synonym double_add = "real \<Rightarrow> real \<Rightarrow> real"

text \<open>Truthiness of a string: only the empty string is falsy.\<close>

definition truthy :: "js_string \<Rightarrow> bool" where
  "truthy t = (t \<noteq> [])"

text \<open>
  \<^verbatim>\<open>String.prototype.trim\<close> strips WhiteSpace and LineTerminator code points (ECMAScript 12.2, 12.3);
  all of them lie in the basic plane, so one code unit each.
\<close>

definition js_whitespace :: "nat \<Rightarrow> bool" where
  "js_whitespace c =
     (c = 0x9 \<or> c = 0xA \<or> c = 0xB \<or> c = 0xC \<or> c = 0xD \<or> c = 0x20 \<or> c = 0xA0 \<or>
      c = 0x1680 \<or> (0x2000 \<le> c \<and> c \<le> 0x200A) \<or> c = 0x2028 \<or> c = 0x2029 \<or>
      c = 0x202F \<or> c = 0x205F \<or> c = 0x3000 \<or> c = 0xFEFF)"

definition trim :: "js_string \<Rightarrow> js_string" where
  "trim t = rev (dropWhile js_whitespace (rev (dropWhile js_whitespace t)))"

text \<open>types.ts\<close>

datatype ConnectionState = DISCONNECTED | CONNECTING | CONNECTED | ERROR

record ClarityUpdate =
  score :: real
  reasoning :: js_string
  language :: "js_string option"

datatype direction = User | Model

text \<open>The fields of \<^verbatim>\<open>LiveServerMessage\<close> that \<^verbatim>\<open>onmessage\<close> reads; an optional field is an option.\<close>

record Blob =
  data :: "js_string option"

record Part =
  inlineData :: "Blob option"

record Content =
  parts :: "Part list option"

record Transcription =
  tr_text :: "js_string option"

record ServerContent =
  modelTurn :: "Content option"
  inputTranscription :: "Transcription option"
  outputTranscription :: "Transcription option"
  turnComplete :: "bool option"

record FunctionCall =
  fc_id :: "js_string option"
  fc_name :: "js_string option"
  fc_args :: ClarityUpdate

record ToolCall =
  functionCalls :: "FunctionCall list"

record LiveServerMessage =
  toolCall :: "ToolCall option"
  serverContent :: "ServerContent option"

text \<open>What the hook hands to the session: \<^verbatim>\<open>sendRealtimeInput\<close> and \<^verbatim>\<open>sendToolResponse\<close>.\<close>

datatype outbound =
    MediaPcm "nat list"
  | MediaJpeg js_string
  | RealtimeText js_string
  | FunctionResponse "js_string option" "js_string option" js_string

text \<open>An \<^verbatim>\<open>AudioBuffer\<close>, as far as the hook reads it.\<close>

record AudioBuffer =
  duration :: real

datatype js_error = InvalidStateError | DecodeError | NotAllowedError

subsection \<open>State\<close>

text \<open>
  Browser objects (audio contexts, source nodes, the media stream, the timer) are handles, natural
  numbers handed out by \<open>nextHandle\<close>. The record holds the hook's React state and refs, the
  local variables of the running \<^verbatim>\<open>connect\<close> call that its callbacks close over, what the
  browser knows about the handles, and what the hook has emitted to its collaborators.
  A message is in \<open>outbox\<close> from the moment it is handed to \<^verbatim>\<open>sessionPromise.then\<close>;
  \<open>clarityUpdates\<close> and \<open>transcriptions\<close> are the calls of \<^verbatim>\<open>onClarityUpdate\<close> and
  \<^verbatim>\<open>onTranscription\<close>, and \<open>playbackStarts\<close> the calls of \<^verbatim>\<open>source.start\<close> (source, context,
  time). The accumulators of lines 133-134 are locals of a \<^verbatim>\<open>connect\<close> call, one pair for
  each call, shared by the message handlers of the session that call opens: they are kept
  per session handle. \<open>connect_isAudioOnly\<close> and \<open>connect_canvas2d\<close> are the \<^verbatim>\<open>isAudioOnly\<close>
  and the canvas context that the callbacks of the latest \<^verbatim>\<open>connect\<close> call close over.
\<close>

record state =
  connectionState :: ConnectionState
  isAudioOnly :: bool
  isAudioOnlyRef :: bool
  videoRef :: bool
  canvasRef :: bool
  inputAudioContextRef :: "nat option"
  outputAudioContextRef :: "nat option"
  mediaStreamRef :: "nat option"
  audioProcessorRef :: "nat option"
  sessionRef :: "nat option"
  videoIntervalRef :: "nat option"
  nextStartTimeRef :: real
  sourceNodesRef :: "nat list"
  connect_isAudioOnly :: bool
  connect_canvas2d :: bool
  currentInputTranscription :: "nat \<Rightarrow> js_string"
  currentOutputTranscription :: "nat \<Rightarrow> js_string"
  closedContexts :: "nat set"
  stoppedSources :: "nat set"
  stoppedStreams :: "nat set"
  nextHandle :: nat
  outbox :: "outbound list"
  clarityUpdates :: "ClarityUpdate list"
  transcriptions :: "(js_string \<times> direction) list"
  playbackStarts :: "(nat \<times> nat \<times> real) list"

text \<open>
  The result of running a callback to its next suspension point: it returned, it is suspended
  at an \<^verbatim>\<open>await\<close> (with the data of its continuation), or its promise rejected.
\<close>

datatype 'k outcome = Returned state | Awaiting 'k state | Rejected js_error state

fun state_of :: "'k outcome \<Rightarrow> state" where
  "state_of (Returned s) = s"
| "state_of (Awaiting k s) = s"
| "state_of (Rejected e s) = s"

subsection \<open>Browser operations\<close>

text \<open>
  \<^verbatim>\<open>AudioContext.close()\<close>: the Web Audio API rejects with InvalidStateError when the context
  is already closed, and otherwise marks it closed at once and resolves later.
\<close>

definition ctx_close :: "nat \<Rightarrow> state \<Rightarrow> js_error + state" where
  "ctx_close c s =
     (if c \<in> closedContexts s then Inl InvalidStateError
      else Inr (s\<lparr>closedContexts := insert c (closedContexts s)\<rparr>))"

text \<open>\<^verbatim>\<open>source.stop()\<close>, which may throw on a node that is already stopped.\<close>

definition source_stop :: "nat \<Rightarrow> state \<Rightarrow> js_error + state" where
  "source_stop n s =
     (if n \<in> stoppedSources s then Inl InvalidStateError
      else Inr (s\<lparr>stoppedSources := insert n (stoppedSources s)\<rparr>))"

subsection \<open>disconnect (lines 61-93)\<close>

text \<open>Lines 63-66.\<close>

definition stop_media_stream :: "state \<Rightarrow> state" where
  "stop_media_stream s =
     (case mediaStreamRef s of
        None \<Rightarrow> s
      | Some m \<Rightarrow> s\<lparr>stoppedStreams := insert m (stoppedStreams s), mediaStreamRef := None\<rparr>)"

text \<open>Lines 69-72.\<close>

definition stop_video_loop :: "state \<Rightarrow> state" where
  "stop_video_loop s =
     (case videoIntervalRef s of
        None \<Rightarrow> s
      | Some t \<Rightarrow> s\<lparr>videoIntervalRef := None\<rparr>)"

text \<open>Line 82: \<^verbatim>\<open>try { source.stop(); } catch (e) {}\<close>.\<close>

definition try_stop :: "nat \<Rightarrow> state \<Rightarrow> state" where
  "try_stop n s = (case source_stop n s of Inl e \<Rightarrow> s | Inr s' \<Rightarrow> s')"

text \<open>Lines 81-84.\<close>

definition stop_all_sources :: "state \<Rightarrow> state" where
  "stop_all_sources s = (fold try_stop (sourceNodesRef s) s)\<lparr>sourceNodesRef := []\<rparr>"

text \<open>Lines 91-92.\<close>

definition disconnect_tail :: "state \<Rightarrow> state" where
  "disconnect_tail s = s\<lparr>sessionRef := None, connectionState := DISCONNECTED\<rparr>"

datatype disconnect_point = AfterInputClose | AfterOutputClose

text \<open>Lines 79-92, up to the \<^verbatim>\<open>await\<close> of line 85.\<close>

definition disconnect_output :: "state \<Rightarrow> disconnect_point outcome" where
  "disconnect_output s =
     (case outputAudioContextRef s of
        None \<Rightarrow> Returned (disconnect_tail s)
      | Some c \<Rightarrow>
          (let s1 = stop_all_sources s in
           case ctx_close c s1 of
             Inl e \<Rightarrow> Rejected e s1
           | Inr s2 \<Rightarrow> Awaiting AfterOutputClose s2))"

text \<open>The call itself: lines 62-76, up to the first \<^verbatim>\<open>await\<close> it meets.\<close>

definition disconnect :: "state \<Rightarrow> disconnect_point outcome" where
  "disconnect s =
     (let s1 = stop_video_loop (stop_media_stream s) in
      case inputAudioContextRef s1 of
        None \<Rightarrow> disconnect_output s1
      | Some c \<Rightarrow>
          (case ctx_close c s1 of
             Inl e \<Rightarrow> Rejected e s1
           | Inr s2 \<Rightarrow> Awaiting AfterInputClose s2))"

text \<open>The continuations: line 77 onwards, and line 86 onwards.\<close>

fun disconnect_resume :: "disconnect_point \<Rightarrow> state \<Rightarrow> disconnect_point outcome" where
  "disconnect_resume AfterInputClose s = disconnect_output (s\<lparr>inputAudioContextRef := None\<rparr>)"
| "disconnect_resume AfterOutputClose s =
     Returned (disconnect_tail (s\<lparr>outputAudioContextRef := None\<rparr>))"

text \<open>
  A call whose \<^verbatim>\<open>close()\<close> promises resolve before any other callback runs: the call and
  its (at most two) continuations in a row.
\<close>

fun resume_once :: "disconnect_point outcome \<Rightarrow> disconnect_point outcome" where
  "resume_once (Awaiting k s) = disconnect_resume k s"
| "resume_once r = r"

definition disconnect_settled :: "state \<Rightarrow> disconnect_point outcome" where
  "disconnect_settled s = resume_once (resume_once (disconnect s))"

subsection \<open>The channel's close and error callbacks (lines 279-287)\<close>

definition onclose :: "state \<Rightarrow> disconnect_point outcome" where
  "onclose s = disconnect s"

definition onerror :: "state \<Rightarrow> disconnect_point outcome" where
  "onerror s = disconnect (s\<lparr>connectionState := ERROR\<rparr>)"

subsection \<open>connect (lines 95-298)\<close>

datatype connect_point = AfterGetUserMedia

text \<open>
  The call, up to the \<^verbatim>\<open>await\<close> of \<^verbatim>\<open>getUserMedia\<close> (lines 96-123). \<^verbatim>\<open>connect\<close> is
  re-created whenever \<^verbatim>\<open>isAudioOnly\<close> changes, so the value it closes over is the state's at
  the call.
\<close>

definition connect :: "js_string \<Rightarrow> state \<Rightarrow> connect_point outcome" where
  "connect apiKey s =
     (if \<not> truthy apiKey then Returned s
      else
        (let s1 = s\<lparr>connectionState := CONNECTING\<rparr>;
             s2 = s1\<lparr>inputAudioContextRef := Some (nextHandle s1),
                     nextHandle := Suc (nextHandle s1)\<rparr>;
             s3 = s2\<lparr>outputAudioContextRef := Some (nextHandle s2),
                     nextHandle := Suc (nextHandle s2)\<rparr>;
             s4 = s3\<lparr>nextStartTimeRef := 0, connect_isAudioOnly := isAudioOnly s\<rparr>
         in Awaiting AfterGetUserMedia s4))"

text \<open>
  The continuation (lines 124-291) when \<^verbatim>\<open>getUserMedia\<close> resolves with a stream, and the
  \<^verbatim>\<open>catch\<close> block (lines 293-297) when it rejects; the block calls \<^verbatim>\<open>disconnect()\<close> without
  awaiting it, so what is left suspended is that call. The continuation declares the two
  accumulators of this call, empty, and opens the session whose handlers use them.
\<close>

fun connect_resume :: "connect_point \<Rightarrow> js_error + nat \<Rightarrow> state \<Rightarrow> disconnect_point outcome" where
  "connect_resume AfterGetUserMedia (Inl e) s = disconnect (s\<lparr>connectionState := ERROR\<rparr>)"
| "connect_resume AfterGetUserMedia (Inr stream) s =
     (let session = nextHandle s in
      Returned (s\<lparr>mediaStreamRef := Some stream,
                  currentInputTranscription := (currentInputTranscription s)(session := []),
                  currentOutputTranscription := (currentOutputTranscription s)(session := []),
                  sessionRef := Some session,
                  nextHandle := Suc session\<rparr>))"

subsection \<open>onopen and the capture callbacks (lines 171-216)\<close>

text \<open>The argument says whether \<^verbatim>\<open>getContext('2d')\<close> gave a context.\<close>

definition onopen :: "bool \<Rightarrow> state \<Rightarrow> state" where
  "onopen has2d s =
     (let s1 = s\<lparr>connectionState := CONNECTED\<rparr> in
      case inputAudioContextRef s1 of
        None \<Rightarrow> s1
      | Some c \<Rightarrow>
          (let s2 = s1\<lparr>audioProcessorRef := Some (nextHandle s1),
                       nextHandle := Suc (nextHandle s1)\<rparr>
           in if \<not> connect_isAudioOnly s2 \<and> canvasRef s2 \<and> videoRef s2
              then s2\<lparr>connect_canvas2d := has2d,
                      videoIntervalRef := Some (nextHandle s2),
                      nextHandle := Suc (nextHandle s2)\<rparr>
              else s2))"

text \<open>Lines 185-190; the argument is \<^verbatim>\<open>createPcmBlob(inputData)\<close>.\<close>

definition onaudioprocess :: "nat list \<Rightarrow> state \<Rightarrow> state" where
  "onaudioprocess pcmBlob s =
     (if inputAudioContextRef s = None then s
      else s\<lparr>outbox := outbox s @ [MediaPcm pcmBlob]\<rparr>)"

text \<open>
  The interval callback, lines 199-214. The argument is the frame as base64 JPEG when the
  video element has \<^verbatim>\<open>HAVE_ENOUGH_DATA\<close>, and None otherwise. With the canvas unmounted,
  \<^verbatim>\<open>canvasRef.current!\<close> throws inside the timer callback and nothing is sent.
\<close>

definition video_tick :: "js_string option \<Rightarrow> state \<Rightarrow> state" where
  "video_tick frame s =
     (if isAudioOnlyRef s then s
      else if videoRef s \<and> connect_canvas2d s then
        (case frame of
           None \<Rightarrow> s
         | Some base64Data \<Rightarrow>
             if canvasRef s then s\<lparr>outbox := outbox s @ [MediaJpeg base64Data]\<rparr> else s)
      else s)"

text \<open>The setter, and the effect of lines 42-44 that copies the state to the ref.\<close>

definition setIsAudioOnly :: "bool \<Rightarrow> state \<Rightarrow> state" where
  "setIsAudioOnly b s = s\<lparr>isAudioOnly := b\<rparr>"

definition sync_isAudioOnlyRef :: "state \<Rightarrow> state" where
  "sync_isAudioOnlyRef s = s\<lparr>isAudioOnlyRef := isAudioOnly s\<rparr>"

text \<open>Lines 307-313.\<close>

definition sendTextMessage :: "js_string \<Rightarrow> state \<Rightarrow> state" where
  "sendTextMessage t s =
     (if sessionRef s = None then s else s\<lparr>outbox := outbox s @ [RealtimeText t]\<rparr>)"

subsection \<open>onmessage (lines 217-278)\<close>

text \<open>Lines 221-233: one function call of the frame.\<close>

definition handle_function_call :: "FunctionCall \<Rightarrow> state \<Rightarrow> state" where
  "handle_function_call fc s =
     (if fc_name fc = Some (lit ''updateClarity'')
      then s\<lparr>clarityUpdates := clarityUpdates s @ [fc_args fc],
              outbox := outbox s @ [FunctionResponse (fc_id fc) (fc_name fc) (lit ''ok'')]\<rparr>
      else s)"

text \<open>Lines 219-235.\<close>

definition handle_tool_calls :: "LiveServerMessage \<Rightarrow> state \<Rightarrow> state" where
  "handle_tool_calls msg s =
     (case toolCall msg of
        None \<Rightarrow> s
      | Some tc \<Rightarrow> fold handle_function_call (functionCalls tc) s)"

text \<open>\<^verbatim>\<open>parts?.[0]\<close>\<close>

fun first_part :: "Part list \<Rightarrow> Part option" where
  "first_part [] = None"
| "first_part (p # ps) = Some p"

text \<open>Line 238, the optional chain.\<close>

definition audioData :: "LiveServerMessage \<Rightarrow> js_string option" where
  "audioData msg =
     Option.bind (serverContent msg) (\<lambda>sc.
     Option.bind (modelTurn sc) (\<lambda>mt.
     Option.bind (parts mt) (\<lambda>ps.
     Option.bind (first_part ps) (\<lambda>p.
     Option.bind (inlineData p) data))))"

text \<open>
  Lines 243-256, with \<open>now\<close> the \<^verbatim>\<open>ctx.currentTime\<close> read at line 248 and \<open>add\<close> the
  addition of doubles of line 253. The maximum of two doubles is one of them.
\<close>

definition schedule_playback ::
  "double_add \<Rightarrow> nat \<Rightarrow> AudioBuffer \<Rightarrow> real \<Rightarrow> state \<Rightarrow> state" where
  "schedule_playback add ctx buffer now s =
     (let source = nextHandle s;
          s1 = s\<lparr>nextHandle := Suc source\<rparr>;
          s2 = s1\<lparr>nextStartTimeRef := max (nextStartTimeRef s1) now\<rparr>;
          s3 = s2\<lparr>playbackStarts := playbackStarts s2 @ [(source, ctx, nextStartTimeRef s2)]\<rparr>;
          s4 = s3\<lparr>nextStartTimeRef := add (nextStartTimeRef s3) (duration buffer)\<rparr>
      in s4\<lparr>sourceNodesRef := sourceNodesRef s4 @ [source]\<rparr>)"

text \<open>Line 256: the \<^verbatim>\<open>onended\<close> callback of a source.\<close>

definition onended :: "nat \<Rightarrow> state \<Rightarrow> state" where
  "onended source s = s\<lparr>sourceNodesRef := removeAll source (sourceNodesRef s)\<rparr>"


definition append_transcription :: "nat \<Rightarrow> LiveServerMessage \<Rightarrow> state \<Rightarrow> state" where
  "append_transcription session msg s =
     (let s1 = (case Option.bind (Option.bind (serverContent msg) inputTranscription) tr_text of
                  None \<Rightarrow> s
                | Some t \<Rightarrow>
                    if truthy t
                    then s\<lparr>currentInputTranscription :=
                             (currentInputTranscription s)
                               (session := currentInputTranscription s session @ t)\<rparr>
                    else s)
      in case Option.bind (Option.bind (serverContent msg) outputTranscription) tr_text of
           None \<Rightarrow> s1
         | Some t \<Rightarrow>
             if truthy t
             then s1\<lparr>currentOutputTranscription :=
                       (currentOutputTranscription s1)
                         (session := currentOutputTranscription s1 session @ t)\<rparr>
             else s1)"

text \<open>Lines 268-277.\<close>

definition commit_transcription :: "nat \<Rightarrow> LiveServerMessage \<Rightarrow> state \<Rightarrow> state" where
  "commit_transcription session msg s =
     (if Option.bind (serverContent msg) turnComplete = Some True then
        (let s1 = (if truthy (trim (currentInputTranscription s session))
                   then s\<lparr>transcriptions :=
                             transcriptions s @ [(currentInputTranscription s session, User)],
                           currentInputTranscription :=
                             (currentInputTranscription s)(session := [])\<rparr>
                   else s)
         in if truthy (trim (currentOutputTranscription s1 session))
            then s1\<lparr>transcriptions :=
                      transcriptions s1 @ [(currentOutputTranscription s1 session, Model)],
                    currentOutputTranscription :=
                      (currentOutputTranscription s1)(session := [])\<rparr>
            else s1)
      else s)"

text \<open>Lines 259-277.\<close>

definition handle_transcription :: "nat \<Rightarrow> LiveServerMessage \<Rightarrow> state \<Rightarrow> state" where
  "handle_transcription session msg s =
     commit_transcription session msg (append_transcription session msg s)"

text \<open>
  The suspended handler closes over its session's accumulators, over the context it read at
  line 240 and over the frame.
\<close>

datatype onmessage_point = AfterDecode nat nat LiveServerMessage

text \<open>
  The handler of the given session, up to the \<^verbatim>\<open>await\<close> of line 241, or to its end when
  line 239 is false.
\<close>

definition onmessage :: "nat \<Rightarrow> LiveServerMessage \<Rightarrow> state \<Rightarrow> onmessage_point outcome" where
  "onmessage session msg s =
     (let s1 = handle_tool_calls msg s in
      case audioData msg of
        None \<Rightarrow> Returned (handle_transcription session msg s1)
      | Some a \<Rightarrow>
          if truthy a then
            (case outputAudioContextRef s1 of
               None \<Rightarrow> Returned (handle_transcription session msg s1)
             | Some ctx \<Rightarrow> Awaiting (AfterDecode session ctx msg) s1)
          else Returned (handle_transcription session msg s1))"

text \<open>
  The continuation, lines 243-277, when \<^verbatim>\<open>decodeAudioData\<close> resolves with a buffer; when it
  rejects, the handler's promise rejects and the rest of the handler does not run.
\<close>

fun onmessage_resume ::
  "double_add \<Rightarrow> onmessage_point \<Rightarrow> js_error + AudioBuffer \<Rightarrow> real \<Rightarrow> state
     \<Rightarrow> onmessage_point outcome" where
  "onmessage_resume add (AfterDecode session ctx msg) (Inl e) now s = Rejected e s"
| "onmessage_resume add (AfterDecode session ctx msg) (Inr buffer) now s =
     Returned (handle_transcription session msg (schedule_playback add ctx buffer now s))"

text \<open>
  A handler whose decode resolves before any other callback runs: the call and its
  continuation in a row.
\<close>

definition onmessage_settled ::
  "double_add \<Rightarrow> nat \<Rightarrow> LiveServerMessage \<Rightarrow> js_error + AudioBuffer \<Rightarrow> real \<Rightarrow> state
     \<Rightarrow> onmessage_point outcome" where
  "onmessage_settled add session msg r now s =
     (case onmessage session msg s of
        Awaiting k s1 \<Rightarrow> onmessage_resume add k r now s1
      | Returned s1 \<Rightarrow> Returned s1
      | Rejected e s1 \<Rightarrow> Rejected e s1)"

subsection \<open>Traces\<close>

text \<open>
  One event is one callback segment run by the browser; a message event names the session
  whose handler runs. The interval callback runs only while the interval of line 199 is
  registered, which is while \<open>videoIntervalRef\<close> holds it.
\<close>

datatype event =
    SetIsAudioOnly bool
  | SyncIsAudioOnlyRef
  | Connect js_string
  | GotUserMedia "js_error + nat"
  | OnOpen bool
  | OnAudioProcess "nat list"
  | VideoTick "js_string option"
  | OnMessage nat LiveServerMessage
  | Decoded onmessage_point "js_error + AudioBuffer" real
  | OnEnded nat
  | OnClose
  | OnError
  | Disconnect
  | DisconnectResume disconnect_point
  | SendText js_string

fun step :: "double_add \<Rightarrow> event \<Rightarrow> state \<Rightarrow> state" where
  "step add (SetIsAudioOnly b) s = setIsAudioOnly b s"
| "step add SyncIsAudioOnlyRef s = sync_isAudioOnlyRef s"
| "step add (Connect apiKey) s = state_of (connect apiKey s)"
| "step add (GotUserMedia r) s = state_of (connect_resume AfterGetUserMedia r s)"
| "step add (OnOpen has2d) s = onopen has2d s"
| "step add (OnAudioProcess pcmBlob) s = onaudioprocess pcmBlob s"
| "step add (VideoTick frame) s =
     (case videoIntervalRef s of None \<Rightarrow> s | Some t \<Rightarrow> video_tick frame s)"
| "step add (OnMessage session msg) s = state_of (onmessage session msg s)"
| "step add (Decoded k r now) s = state_of (onmessage_resume add k r now s)"
| "step add (OnEnded source) s = onended source s"
| "step add OnClose s = state_of (onclose s)"
| "step add OnError s = state_of (onerror s)"
| "step add Disconnect s = state_of (disconnect s)"
| "step add (DisconnectResume k) s = state_of (disconnect_resume k s)"
| "step add (SendText t) s = sendTextMessage t s"

fun run :: "double_add \<Rightarrow> event list \<Rightarrow> state \<Rightarrow> state" where
  "run add [] s = s"
| "run add (e # es) s = run add es (step add e s)"

fun is_Connect :: "event \<Rightarrow> bool" where
  "is_Connect (Connect apiKey) = True"
| "is_Connect e = False"

fun is_MediaJpeg :: "outbound \<Rightarrow> bool" where
  "is_MediaJpeg (MediaJpeg d) = True"
| "is_MediaJpeg m = False"

text \<open>The state of a freshly mounted hook.\<close>

definition initial :: state where
  "initial =
     \<lparr>connectionState = DISCONNECTED, isAudioOnly = False, isAudioOnlyRef = False,
      videoRef = True, canvasRef = True,
      inputAudioContextRef = None, outputAudioContextRef = None, mediaStreamRef = None,
      audioProcessorRef = None, sessionRef = None, videoIntervalRef = None,
      nextStartTimeRef = 0, sourceNodesRef = [],
      connect_isAudioOnly = False, connect_canvas2d = False,
      currentInputTranscription = (\<lambda>session. []),
      currentOutputTranscription = (\<lambda>session. []),
      closedContexts = {}, stoppedSources = {}, stoppedStreams = {}, nextHandle = 0,
      outbox = [], clarityUpdates = [], transcriptions = [], playbackStarts = []\<rparr>"

subsection \<open>Vocabulary of the properties\<close>

text \<open>The rejection of a call, if it rejected.\<close>

fun rejection :: "'k outcome \<Rightarrow> js_error option" where
  "rejection (Rejected e s) = Some e"
| "rejection r = None"

text \<open>The test of line 221, the response of lines 226-232, and the frame without the other calls.\<close>

definition is_updateClarity :: "FunctionCall \<Rightarrow> bool" where
  "is_updateClarity fc = (fc_name fc = Some (lit ''updateClarity''))"

definition acknowledgement :: "FunctionCall \<Rightarrow> outbound" where
  "acknowledgement fc = FunctionResponse (fc_id fc) (fc_name fc) (lit ''ok'')"

fun response_to :: "js_string option \<Rightarrow> outbound \<Rightarrow> bool" where
  "response_to i (FunctionResponse j n r) = (i = j)"
| "response_to i m = False"

definition only_updateClarity :: "LiveServerMessage \<Rightarrow> LiveServerMessage" where
  "only_updateClarity msg =
     msg\<lparr>toolCall :=
           map_option (\<lambda>tc. tc\<lparr>functionCalls := filter is_updateClarity (functionCalls tc)\<rparr>)
             (toolCall msg)\<rparr>"








text \<open>
  A decode that resolves: the suspended handler, the decoded buffer, and the output clock
  read when the handler resumes.
\<close>

record completion =
  point :: onmessage_point
  buffer :: AudioBuffer
  clock :: real

definition resolve :: "completion \<Rightarrow> event" where
  "resolve x = Decoded (point x) (Inr (buffer x)) (clock x)"

fun nonneg_duration :: "event \<Rightarrow> bool" where
  "nonneg_duration (Decoded k (Inr b) now) = (0 \<le> duration b)"
| "nonneg_duration e = True"

text \<open>The times handed to \<^verbatim>\<open>source.start\<close>, in call order, and those added between two states.\<close>

definition scheduled_starts :: "state \<Rightarrow> real list" where
  "scheduled_starts s = map (\<lambda>p. snd (snd p)) (playbackStarts s)"

definition new_starts :: "state \<Rightarrow> state \<Rightarrow> real list" where
  "new_starts s s' = drop (length (playbackStarts s)) (scheduled_starts s')"

text \<open>The start times and the cursor that a run of completions produces from cursor \<open>t\<close>.\<close>

fun starts_from :: "double_add \<Rightarrow> real \<Rightarrow> completion list \<Rightarrow> real list" where
  "starts_from add t [] = []"
| "starts_from add t (x # xs) =
     max t (clock x) # starts_from add (add (max t (clock x)) (duration (buffer x))) xs"

fun cursor_after :: "double_add \<Rightarrow> real \<Rightarrow> completion list \<Rightarrow> real" where
  "cursor_after add t [] = t"
| "cursor_after add t (x # xs) =
     cursor_after add (add (max t (clock x)) (duration (buffer x))) xs"

text \<open>Every handle that \<^verbatim>\<open>disconnect\<close> releases is released, and the state is Disconnected.\<close>

definition released :: "state \<Rightarrow> bool" where
  "released s =
     (connectionState s = DISCONNECTED \<and> mediaStreamRef s = None \<and>
      videoIntervalRef s = None \<and> inputAudioContextRef s = None \<and>
      outputAudioContextRef s = None \<and> sessionRef s = None)"

subsection \<open>Concrete sessions and frames\<close>

text \<open>
  A session with video, connected: \<^verbatim>\<open>connect\<close> with a key, the stream 7 granted, the channel
  opened. Contexts 0 and 1 are live, the session is 2, the timer is registered.
\<close>

definition live_session :: state where
  "live_session =
     onopen True
       (state_of (connect_resume AfterGetUserMedia (Inr 7)
          (state_of (connect (lit ''key'') initial))))"

text \<open>The same session after a \<^verbatim>\<open>disconnect()\<close> that ran to its end.\<close>

definition torn_down :: state where
  "torn_down = state_of (disconnect_settled live_session)"

definition audio_frame :: LiveServerMessage where
  "audio_frame =
     \<lparr>toolCall = None,
      serverContent =
        Some \<lparr>modelTurn = Some \<lparr>parts = Some [\<lparr>inlineData = Some \<lparr>data = Some (lit ''AAAA'')\<rparr>\<rparr>]\<rparr>,
              inputTranscription = None, outputTranscription = None, turnComplete = None\<rparr>\<rparr>"



definition tool_frame :: "FunctionCall list \<Rightarrow> LiveServerMessage" where
  "tool_frame fcs = \<lparr>toolCall = Some \<lparr>functionCalls = fcs\<rparr>, serverContent = None\<rparr>"

definition clarity_call :: FunctionCall where
  "clarity_call =
     \<lparr>fc_id = Some (lit ''call-1''), fc_name = Some (lit ''updateClarity''),
      fc_args = \<lparr>score = 42, reasoning = lit ''too much jargon'',
                 language = Some (lit ''English'')\<rparr>\<rparr>"

definition other_call :: FunctionCall where
  "other_call =
     \<lparr>fc_id = Some (lit ''call-2''), fc_name = Some (lit ''setTopic''),
      fc_args = \<lparr>score = 0, reasoning = [], language = None\<rparr>\<rparr>"

text \<open>
  Two decodes at output clock 0: a buffer of 0.5 s, then one of 0.25 s. The sums of these
  doubles are exact.
\<close>

definition two_chunks :: "completion list" where
  "two_chunks =
     [\<lparr>point = AfterDecode 2 1 audio_frame, buffer = \<lparr>duration = 1/2\<rparr>, clock = 0\<rparr>,
      \<lparr>point = AfterDecode 2 1 audio_frame, buffer = \<lparr>duration = 1/4\<rparr>, clock = 0\<rparr>]"

text \<open>A frame whose first part has no inline data and whose second part carries audio.\<close>

definition second_part_audio :: LiveServerMessage where
  "second_part_audio =
     \<lparr>toolCall = None,
      serverContent =
        Some \<lparr>modelTurn = Some \<lparr>parts = Some [\<lparr>inlineData = None\<rparr>,
                                               \<lparr>inlineData = Some \<lparr>data = Some (lit ''AAAA'')\<rparr>\<rparr>]\<rparr>,
              inputTranscription = None, outputTranscription = None, turnComplete = None\<rparr>\<rparr>"


text \<open>A freshly mounted hook with the audio-only toggle set.\<close>

definition audio_only_start :: state where
  "audio_only_start = sync_isAudioOnlyRef (setIsAudioOnly True initial)"

text \<open>What may follow a \<^verbatim>\<open>connect\<close> in audio-only mode: the toggle is set back and the timer asked to fire.\<close>

definition toggled_back :: "event list" where
  "toggled_back =
     [GotUserMedia (Inr 7), OnOpen True, SetIsAudioOnly False, SyncIsAudioOnlyRef,
      VideoTick (Some (lit ''/9j/'')), OnAudioProcess [0, 0]]"



text \<open>A frame with audio and one clarity call.\<close>

definition audio_clarity_frame :: LiveServerMessage where
  "audio_clarity_frame =
     \<lparr>toolCall = Some \<lparr>functionCalls = [clarity_call]\<rparr>,
      serverContent =
        Some \<lparr>modelTurn = Some \<lparr>parts = Some [\<lparr>inlineData = Some \<lparr>data = Some (lit ''AAAA'')\<rparr>\<rparr>]\<rparr>,
              inputTranscription = None, outputTranscription = None, turnComplete = None\<rparr>\<rparr>"

section \<open>Properties\<close>

subsection \<open>Closed forms of the handlers\<close>

lemmas session_defs =
  live_session_def torn_down_def initial_def connect_def lit_def truthy_def onopen_def Let_def
  disconnect_def disconnect_output_def disconnect_tail_def disconnect_settled_def
  stop_media_stream_def stop_video_loop_def stop_all_sources_def try_stop_def source_stop_def
  ctx_close_def onerror_def onclose_def

lemma fun_upd_const_same: "(\<lambda>x. v)(k := v) = (\<lambda>x. v)"
  by (rule ext) simp

lemma live_session_eq:
  "live_session =
     \<lparr>connectionState = CONNECTED, isAudioOnly = False, isAudioOnlyRef = False,
      videoRef = True, canvasRef = True,
      inputAudioContextRef = Some 0, outputAudioContextRef = Some 1, mediaStreamRef = Some 7,
      audioProcessorRef = Some 3, sessionRef = Some 2, videoIntervalRef = Some 4,
      nextStartTimeRef = 0, sourceNodesRef = [],
      connect_isAudioOnly = False, connect_canvas2d = True,
      currentInputTranscription = (\<lambda>session. []),
      currentOutputTranscription = (\<lambda>session. []),
      closedContexts = {}, stoppedSources = {}, stoppedStreams = {}, nextHandle = 5,
      outbox = [], clarityUpdates = [], transcriptions = [], playbackStarts = []\<rparr>"
  by (simp add: session_defs fun_upd_const_same)

lemma torn_down_eq:
  "torn_down =
     \<lparr>connectionState = DISCONNECTED, isAudioOnly = False, isAudioOnlyRef = False,
      videoRef = True, canvasRef = True,
      inputAudioContextRef = None, outputAudioContextRef = None, mediaStreamRef = None,
      audioProcessorRef = Some 3, sessionRef = None, videoIntervalRef = None,
      nextStartTimeRef = 0, sourceNodesRef = [],
      connect_isAudioOnly = False, connect_canvas2d = True,
      currentInputTranscription = (\<lambda>session. []),
      currentOutputTranscription = (\<lambda>session. []),
      closedContexts = {0, 1}, stoppedSources = {}, stoppedStreams = {7}, nextHandle = 5,
      outbox = [], clarityUpdates = [], transcriptions = [], playbackStarts = []\<rparr>"
  unfolding torn_down_def live_session_eq
  by (simp add: session_defs insert_commute)

lemma try_stop_eq: "try_stop n s = s\<lparr>stoppedSources := insert n (stoppedSources s)\<rparr>"
  by (simp add: try_stop_def source_stop_def insert_absorb)

lemma fold_try_stop: "fold try_stop ns s = s\<lparr>stoppedSources := stoppedSources s \<union> set ns\<rparr>"
  by (induction ns arbitrary: s) (simp_all add: try_stop_eq)

lemma fold_handle_function_call:
  "fold handle_function_call fcs s =
     s\<lparr>clarityUpdates := clarityUpdates s @ map fc_args (filter is_updateClarity fcs),
       outbox := outbox s @ map acknowledgement (filter is_updateClarity fcs)\<rparr>"
  by (induction fcs arbitrary: s)
     (simp_all add: handle_function_call_def is_updateClarity_def acknowledgement_def)

lemma handle_tool_calls_eq:
  "handle_tool_calls msg s =
     (case toolCall msg of
        None \<Rightarrow> s
      | Some tc \<Rightarrow>
          s\<lparr>clarityUpdates :=
                clarityUpdates s @ map fc_args (filter is_updateClarity (functionCalls tc)),
            outbox :=
                outbox s @ map acknowledgement (filter is_updateClarity (functionCalls tc))\<rparr>)"
  by (simp add: handle_tool_calls_def fold_handle_function_call split: option.splits)

lemma handle_transcription_fields:
  "outbox (handle_transcription c msg s) = outbox s"
  "clarityUpdates (handle_transcription c msg s) = clarityUpdates s"
  "playbackStarts (handle_transcription c msg s) = playbackStarts s"
  "nextStartTimeRef (handle_transcription c msg s) = nextStartTimeRef s"
  "sourceNodesRef (handle_transcription c msg s) = sourceNodesRef s"
  "videoIntervalRef (handle_transcription c msg s) = videoIntervalRef s"
  "connect_isAudioOnly (handle_transcription c msg s) = connect_isAudioOnly s"
  by (simp_all add: handle_transcription_def commit_transcription_def append_transcription_def
        Let_def split: option.splits)

lemma handle_tool_calls_fields:
  "playbackStarts (handle_tool_calls msg s) = playbackStarts s"
  "nextStartTimeRef (handle_tool_calls msg s) = nextStartTimeRef s"
  "sourceNodesRef (handle_tool_calls msg s) = sourceNodesRef s"
  "outputAudioContextRef (handle_tool_calls msg s) = outputAudioContextRef s"
  "videoIntervalRef (handle_tool_calls msg s) = videoIntervalRef s"
  "connect_isAudioOnly (handle_tool_calls msg s) = connect_isAudioOnly s"
  by (simp_all add: handle_tool_calls_eq split: option.splits)

lemma onmessage_state:
  "state_of (onmessage c msg s) =
     (case onmessage c msg s of
        Awaiting k s1 \<Rightarrow> handle_tool_calls msg s
      | _ \<Rightarrow> handle_transcription c msg (handle_tool_calls msg s))"
  by (simp add: onmessage_def Let_def split: option.splits)

lemma response_to_acknowledgement: "response_to i (acknowledgement fc) = (fc_id fc = i)"
  by (auto simp add: acknowledgement_def)

lemma audioData_only_updateClarity: "audioData (only_updateClarity msg) = audioData msg"
  by (simp add: audioData_def only_updateClarity_def)

lemma handle_transcription_cong:
  "serverContent m = serverContent m' \<Longrightarrow>
   handle_transcription c m s = handle_transcription c m' s"
  by (simp add: handle_transcription_def commit_transcription_def append_transcription_def)

lemma handle_tool_calls_only_updateClarity:
  "handle_tool_calls (only_updateClarity msg) s = handle_tool_calls msg s"
  by (simp add: handle_tool_calls_eq only_updateClarity_def split: option.splits)

lemma schedule_playback_eq:
  "schedule_playback add ctx b now s =
     s\<lparr>nextHandle := Suc (nextHandle s),
       nextStartTimeRef := add (max (nextStartTimeRef s) now) (duration b),
       playbackStarts := playbackStarts s @ [(nextHandle s, ctx, max (nextStartTimeRef s) now)],
       sourceNodesRef := sourceNodesRef s @ [nextHandle s]\<rparr>"
  by (simp add: schedule_playback_def Let_def)

lemma disconnect_resume_fields:
  "nextStartTimeRef (state_of (disconnect_resume k s)) = nextStartTimeRef s"
  "connect_isAudioOnly (state_of (disconnect_resume k s)) = connect_isAudioOnly s"
  "videoIntervalRef (state_of (disconnect_resume k s)) = videoIntervalRef s"
  "outbox (state_of (disconnect_resume k s)) = outbox s"
  by (cases k;
      simp add: disconnect_output_def disconnect_tail_def stop_all_sources_def fold_try_stop
        ctx_close_def Let_def split: option.splits)+

lemma disconnect_fields:
  "nextStartTimeRef (state_of (disconnect s)) = nextStartTimeRef s"
  "connect_isAudioOnly (state_of (disconnect s)) = connect_isAudioOnly s"
  "videoIntervalRef (state_of (disconnect s)) = None"
  "outbox (state_of (disconnect s)) = outbox s"
  by (simp_all add: disconnect_def disconnect_output_def disconnect_tail_def stop_all_sources_def
        fold_try_stop ctx_close_def stop_video_loop_def stop_media_stream_def Let_def
        split: option.splits)

lemma run_append: "run add (es @ es') s = run add es' (run add es s)"
  by (induction es arbitrary: s) simp_all

subsection \<open>The playback cursor\<close>

lemma step_nextStart:
  assumes "\<forall>x d. 0 \<le> d \<longrightarrow> x \<le> add x d" and "\<not> is_Connect e" and "nonneg_duration e"
  shows "nextStartTimeRef s \<le> nextStartTimeRef (step add e s)"
proof (cases e)
  case (GotUserMedia r)
  then show ?thesis by (cases r) (simp_all add: disconnect_fields Let_def)
next
  case (OnMessage c msg)
  then show ?thesis
    by (simp add: onmessage_state handle_transcription_fields handle_tool_calls_fields
          split: outcome.splits)
next
  case (Decoded k r now)
  show ?thesis
  proof (cases k)
    case (AfterDecode c ctx msg)
    show ?thesis
    proof (cases r)
      case (Inl err)
      with Decoded AfterDecode show ?thesis by simp
    next
      case (Inr b)
      with Decoded assms(3) have d: "0 \<le> duration b" by simp
      have "nextStartTimeRef s \<le> max (nextStartTimeRef s) now" by simp
      also have "\<dots> \<le> add (max (nextStartTimeRef s) now) (duration b)"
        using assms(1) d by blast
      finally have "nextStartTimeRef s \<le> add (max (nextStartTimeRef s) now) (duration b)" .
      with Decoded AfterDecode Inr show ?thesis
        by (simp add: handle_transcription_fields schedule_playback_eq)
    qed
  qed
qed (use assms(2) in \<open>simp_all add: setIsAudioOnly_def sync_isAudioOnlyRef_def onopen_def
       Let_def onaudioprocess_def video_tick_def onended_def onclose_def onerror_def
       disconnect_fields disconnect_resume_fields sendTextMessage_def split: option.splits\<close>)

lemma run_nextStart:
  assumes "\<forall>x d. 0 \<le> d \<longrightarrow> x \<le> add x d"
  shows "\<forall>e\<in>set es. \<not> is_Connect e \<and> nonneg_duration e \<Longrightarrow>
         nextStartTimeRef s \<le> nextStartTimeRef (run add es s)"
proof (induction es arbitrary: s)
  case Nil
  show ?case by simp
next
  case (Cons e es)
  have "nextStartTimeRef s \<le> nextStartTimeRef (step add e s)"
    using assms Cons.prems by (intro step_nextStart) simp_all
  also have "\<dots> \<le> nextStartTimeRef (run add es (step add e s))"
    using Cons.prems by (intro Cons.IH) simp
  finally show ?case by simp
qed

lemma step_resolve:
  "scheduled_starts (step add (resolve x) s) =
     scheduled_starts s @ [max (nextStartTimeRef s) (clock x)]"
  "nextStartTimeRef (step add (resolve x) s) =
     add (max (nextStartTimeRef s) (clock x)) (duration (buffer x))"
  by (cases "point x";
      simp add: resolve_def scheduled_starts_def handle_transcription_fields
        schedule_playback_eq)+

lemma run_resolve_starts:
  "scheduled_starts (run add (map resolve xs) s) =
     scheduled_starts s @ starts_from add (nextStartTimeRef s) xs"
  by (induction xs arbitrary: s) (simp_all add: step_resolve)

lemma run_resolve_cursor:
  "nextStartTimeRef (run add (map resolve xs) s) = cursor_after add (nextStartTimeRef s) xs"
  by (induction xs arbitrary: s) (simp_all add: step_resolve)

lemma length_starts_from: "length (starts_from add t xs) = length xs"
  by (induction xs arbitrary: t) simp_all

lemma starts_from_nth:
  "k < length xs \<Longrightarrow>
   starts_from add t xs ! k = max (cursor_after add t (take k xs)) (clock (xs ! k))"
proof (induction xs arbitrary: t k)
  case Nil
  then show ?case by simp
next
  case (Cons x xs)
  then show ?case by (cases k) simp_all
qed

lemma cursor_after_Suc:
  "k < length xs \<Longrightarrow>
   cursor_after add t (take (Suc k) xs) =
     add (starts_from add t xs ! k) (duration (buffer (xs ! k)))"
proof (induction xs arbitrary: t k)
  case Nil
  then show ?case by simp
next
  case (Cons x xs)
  then show ?case by (cases k) simp_all
qed

lemma starts_from_gap:
  assumes "Suc k < length xs"
  shows "add (starts_from add t xs ! k) (duration (buffer (xs ! k)))
           \<le> starts_from add t xs ! Suc k"
proof -
  have "starts_from add t xs ! Suc k =
          max (cursor_after add t (take (Suc k) xs)) (clock (xs ! Suc k))"
    using assms by (rule starts_from_nth)
  moreover have "cursor_after add t (take (Suc k) xs) =
                   add (starts_from add t xs ! k) (duration (buffer (xs ! k)))"
    using assms by (intro cursor_after_Suc) simp
  ultimately show ?thesis by simp
qed

lemma sorted_starts_from:
  assumes "\<forall>x d. 0 \<le> d \<longrightarrow> x \<le> add x d" and "\<forall>x\<in>set xs. 0 \<le> duration (buffer x)"
  shows "sorted (starts_from add t xs)"
proof -
  have "starts_from add t xs ! k \<le> starts_from add t xs ! Suc k" if "Suc k < length xs" for k
  proof -
    have "0 \<le> duration (buffer (xs ! k))" using assms(2) that by simp
    with assms(1)
    have "starts_from add t xs ! k \<le> add (starts_from add t xs ! k) (duration (buffer (xs ! k)))"
      by blast
    also have "\<dots> \<le> starts_from add t xs ! Suc k"
      using that by (rule starts_from_gap)
    finally show ?thesis .
  qed
  then show ?thesis by (simp add: sorted_iff_nth_Suc length_starts_from)
qed

lemma new_starts_run:
  "new_starts s (run add (map resolve xs) s) = starts_from add (nextStartTimeRef s) xs"
  by (simp add: new_starts_def run_resolve_starts) (simp add: scheduled_starts_def)

text \<open>
  C1. Every decoded buffer is started at the maximum of the cursor and the output clock, and
  the cursor then becomes that start plus the buffer's duration, the sum being the one the
  engine computes on doubles (line 253). The addition is any function under which adding a
  non-negative number does not go below the first summand. Then, for buffers of non-negative
  duration enqueued one after another, the start times are non-decreasing, each start is at
  least the cursor computed from the previous start and duration, and over any run of
  callbacks of one session (no new \<^verbatim>\<open>connect\<close>) the cursor never moves back.
\<close>

theorem playback_cursor_monotone:
  assumes add: "\<forall>x d. 0 \<le> d \<longrightarrow> x \<le> add x d"
    and durs: "\<forall>x\<in>set xs. 0 \<le> duration (buffer x)"
    and life: "\<forall>e\<in>set (es @ es'). \<not> is_Connect e \<and> nonneg_duration e"
  shows "length (new_starts s (run add (map resolve xs) s)) = length xs \<and>
         (\<forall>k<length xs.
            new_starts s (run add (map resolve xs) s) ! k =
              max (nextStartTimeRef (run add (map resolve (take k xs)) s)) (clock (xs ! k)) \<and>
            nextStartTimeRef (run add (map resolve (take (Suc k) xs)) s) =
              add (new_starts s (run add (map resolve xs) s) ! k) (duration (buffer (xs ! k)))) \<and>
         sorted (new_starts s (run add (map resolve xs) s)) \<and>
         (\<forall>k. Suc k < length xs \<longrightarrow>
            add (new_starts s (run add (map resolve xs) s) ! k) (duration (buffer (xs ! k)))
              \<le> new_starts s (run add (map resolve xs) s) ! Suc k) \<and>
         nextStartTimeRef (run add es s) \<le> nextStartTimeRef (run add (es @ es') s)"
proof -
  have "nextStartTimeRef (run add es s) \<le> nextStartTimeRef (run add es' (run add es s))"
    using add life by (intro run_nextStart) simp_all
  then have "nextStartTimeRef (run add es s) \<le> nextStartTimeRef (run add (es @ es') s)"
    by (simp add: run_append)
  moreover have "sorted (starts_from add (nextStartTimeRef s) xs)"
    using add durs by (rule sorted_starts_from)
  ultimately show ?thesis
    by (simp add: new_starts_run length_starts_from run_resolve_cursor starts_from_nth
          cursor_after_Suc starts_from_gap del: take_Suc_Cons)
qed

text \<open>
  On the connected session, with sums that are exact on doubles: a chunk of 0.5 s at clock 0
  starts at 0, the next chunk of 0.25 s starts at exactly 0.5, and the cursor ends at 0.75.
\<close>

theorem playback_cursor_monotone_witness:
  "list_all (\<lambda>x. 0 \<le> duration (buffer x)) two_chunks \<and>
   list_all (\<lambda>e. \<not> is_Connect e \<and> nonneg_duration e)
     ([OnMessage 2 audio_frame] @ map resolve two_chunks) \<and>
   new_starts live_session (run (+) (map resolve two_chunks) live_session) = [0, 1/2] \<and>
   nextStartTimeRef (run (+) (map resolve two_chunks) live_session) = 3/4 \<and>
   sorted (new_starts live_session (run (+) (map resolve two_chunks) live_session)) \<and>
   nextStartTimeRef (run (+) [OnMessage 2 audio_frame] live_session)
     \<le> nextStartTimeRef
          (run (+) ([OnMessage 2 audio_frame] @ map resolve two_chunks) live_session)"
proof -
  have h0: "\<forall>x d. 0 \<le> d \<longrightarrow> x \<le> x + (d::real)"
    by simp
  have h1: "\<forall>x\<in>set two_chunks. 0 \<le> duration (buffer x)"
    by (simp add: two_chunks_def)
  have h2: "\<forall>e\<in>set ([OnMessage 2 audio_frame] @ map resolve two_chunks).
              \<not> is_Connect e \<and> nonneg_duration e"
    by (simp add: two_chunks_def resolve_def)
  have v: "new_starts live_session (run (+) (map resolve two_chunks) live_session) = [0, 1/2]"
          "nextStartTimeRef (run (+) (map resolve two_chunks) live_session) = 3/4"
    unfolding new_starts_run run_resolve_cursor
    by (simp_all add: live_session_eq two_chunks_def)
  from playback_cursor_monotone [OF h0 h1 h2, of live_session] h1 h2 v
  show ?thesis by (simp add: list_all_iff)
qed

subsection \<open>The error callback\<close>

lemma settled_disconnect_state:
  "resume_once (resume_once (disconnect s)) = Returned s' \<Longrightarrow> connectionState s' = DISCONNECTED"
  by (auto simp add: disconnect_def disconnect_output_def disconnect_tail_def ctx_close_def
        Let_def split: option.splits if_splits)

text \<open>
  C2. The error callback sets the state to Error and then calls \<^verbatim>\<open>disconnect()\<close>, whose last
  statement sets it to Disconnected. On a connected session the state is Error only while the
  teardown awaits the contexts, and Disconnected once it has run; with no context to close it
  is Disconnected at once. The state does not end up as Error.
\<close>

theorem onerror_ends_disconnected:
  "connectionState (state_of (onerror live_session)) = ERROR \<and>
   connectionState (state_of (resume_once (resume_once (onerror live_session)))) = DISCONNECTED \<and>
   connectionState (state_of (onerror torn_down)) = DISCONNECTED"
  unfolding live_session_eq torn_down_eq
  by (simp add: session_defs)

subsection \<open>A decode that resolves after the teardown\<close>

text \<open>
  C3. An audio frame arrives on a connected session and its handler suspends on the decode,
  holding output context 1. \<^verbatim>\<open>disconnect()\<close> then runs to its end: context 1 is closed, the
  ref is null, the set of sources is empty. When the decode resolves, the handler does not
  look at the ref again: it creates source 5 on the closed context, starts it at clock 3,
  advances the cursor by the buffer's duration from there, and adds the source to the set
  that the teardown had cleared.
\<close>

theorem late_decode_schedules_on_closed_context:
  "onmessage 2 audio_frame live_session = Awaiting (AfterDecode 2 1 audio_frame) live_session \<and>
   outputAudioContextRef torn_down = None \<and>
   1 \<in> closedContexts torn_down \<and>
   sourceNodesRef torn_down = [] \<and>
   playbackStarts
     (state_of (onmessage_resume add (AfterDecode 2 1 audio_frame) (Inr \<lparr>duration = 1/2\<rparr>) 3
                  torn_down))
     = [(5, 1, 3)] \<and>
   sourceNodesRef
     (state_of (onmessage_resume add (AfterDecode 2 1 audio_frame) (Inr \<lparr>duration = 1/2\<rparr>) 3
                  torn_down))
     = [5] \<and>
   nextStartTimeRef
     (state_of (onmessage_resume add (AfterDecode 2 1 audio_frame) (Inr \<lparr>duration = 1/2\<rparr>) 3
                  torn_down))
     = add 3 (1/2)"
  unfolding live_session_eq torn_down_eq
  by (simp add: onmessage_def handle_tool_calls_def audioData_def audio_frame_def lit_def
        truthy_def handle_transcription_fields schedule_playback_eq)

subsection \<open>Transcripts\<close>











subsection \<open>Tool calls\<close>

lemma onmessage_settled_tools:
  "clarityUpdates (state_of (onmessage_settled add c msg r now s)) =
     clarityUpdates (handle_tool_calls msg s)"
  "outbox (state_of (onmessage_settled add c msg r now s)) = outbox (handle_tool_calls msg s)"
  by (cases r;
      simp add: onmessage_settled_def onmessage_def Let_def handle_transcription_fields
        schedule_playback_eq split: option.splits)+

text \<open>
  C5. For a frame with tool calls, the arguments of every call named \<^verbatim>\<open>updateClarity\<close> are
  published whole, in order, and the frame's handler, run to its end, has sent for each of
  them one response with that call's id and name and the result "ok", and nothing else: for
  every id, as many responses carry it as the frame has clarity calls with it. This holds
  whether or not the frame carries audio and whether its decode resolves or rejects; all of
  it is done before the handler suspends on the decode, and the rest of the handler adds
  nothing. What is sent depends on the calls alone, not on what has been published since.
\<close>

theorem clarity_published_and_acknowledged:
  "toolCall msg = Some tc \<Longrightarrow>
   clarityUpdates (state_of (onmessage_settled add c msg r now s)) =
     clarityUpdates s @ map fc_args (filter is_updateClarity (functionCalls tc)) \<and>
   outbox (state_of (onmessage_settled add c msg r now s)) =
     outbox s @ map acknowledgement (filter is_updateClarity (functionCalls tc)) \<and>
   length (filter (response_to i)
             (drop (length (outbox s))
                (outbox (state_of (onmessage_settled add c msg r now s))))) =
     length (filter (\<lambda>fc. is_updateClarity fc \<and> fc_id fc = i) (functionCalls tc)) \<and>
   clarityUpdates (state_of (onmessage c msg s)) =
     clarityUpdates s @ map fc_args (filter is_updateClarity (functionCalls tc)) \<and>
   outbox (state_of (onmessage c msg s)) =
     outbox s @ map acknowledgement (filter is_updateClarity (functionCalls tc))"
  by (simp add: onmessage_settled_tools onmessage_def Let_def handle_transcription_fields
        handle_tool_calls_eq response_to_acknowledgement split: option.splits)

text \<open>
  The scenario of the specification, in a frame that also carries audio: the invocation with
  score 42, reasoning "too much jargon" and language "English" publishes exactly these three
  fields and is answered once, when the decode resolves and when it rejects.
\<close>

theorem clarity_published_and_acknowledged_witness:
  "toolCall audio_clarity_frame = Some \<lparr>functionCalls = [clarity_call]\<rparr> \<and>
   clarityUpdates
     (state_of (onmessage_settled (+) 2 audio_clarity_frame (Inr \<lparr>duration = 1/2\<rparr>) 0
                  live_session)) =
     [\<lparr>score = 42, reasoning = lit ''too much jargon'', language = Some (lit ''English'')\<rparr>] \<and>
   outbox
     (state_of (onmessage_settled (+) 2 audio_clarity_frame (Inr \<lparr>duration = 1/2\<rparr>) 0
                  live_session)) =
     [FunctionResponse (Some (lit ''call-1'')) (Some (lit ''updateClarity'')) (lit ''ok'')] \<and>
   length (filter (response_to (Some (lit ''call-1'')))
             (outbox
                (state_of (onmessage_settled (+) 2 audio_clarity_frame
                             (Inr \<lparr>duration = 1/2\<rparr>) 0 live_session)))) = 1 \<and>
   outbox
     (state_of (onmessage_settled (+) 2 audio_clarity_frame (Inl DecodeError) 0 live_session)) =
     [FunctionResponse (Some (lit ''call-1'')) (Some (lit ''updateClarity'')) (lit ''ok'')] \<and>
   sourceNodesRef
     (state_of (onmessage_settled (+) 2 audio_clarity_frame (Inr \<lparr>duration = 1/2\<rparr>) 0
                  live_session)) = [5]"
proof -
  have h: "toolCall audio_clarity_frame = Some \<lparr>functionCalls = [clarity_call]\<rparr>"
    by (simp add: audio_clarity_frame_def)
  have c: "is_updateClarity clarity_call" "fc_id clarity_call = Some (lit ''call-1'')"
    by (simp_all add: is_updateClarity_def clarity_call_def)
  have e: "outbox live_session = []" "clarityUpdates live_session = []"
    by (simp_all add: live_session_eq)
  have n: "sourceNodesRef
             (state_of (onmessage_settled (+) 2 audio_clarity_frame (Inr \<lparr>duration = 1/2\<rparr>) 0
                          live_session)) = [5]"
    unfolding live_session_eq
    by (simp add: onmessage_settled_def onmessage_def audioData_def audio_clarity_frame_def
          handle_tool_calls_eq lit_def truthy_def handle_transcription_fields
          schedule_playback_eq)
  from clarity_published_and_acknowledged
         [OF h, of "(+)" 2 "Inr \<lparr>duration = 1/2\<rparr>" 0 live_session "Some (lit ''call-1'')"]
       clarity_published_and_acknowledged
         [OF h, of "(+)" 2 "Inl DecodeError" 0 live_session "Some (lit ''call-1'')"]
       h n
  show ?thesis
    by (simp add: c e) (simp add: acknowledgement_def clarity_call_def)
qed

text \<open>
  C10. Calls with any other name leave no trace: handling a frame gives the same result as
  handling the frame with those calls removed (so the calls around them and the rest of the
  frame are handled as they would be without them), and a frame with only such calls
  publishes nothing and sends nothing.
\<close>

theorem other_function_calls_dropped:
  "onmessage_settled add c msg r now s =
     onmessage_settled add c (only_updateClarity msg) r now s \<and>
   (toolCall msg = Some tc \<longrightarrow> \<not> list_ex is_updateClarity (functionCalls tc) \<longrightarrow>
      clarityUpdates (state_of (onmessage c msg s)) = clarityUpdates s \<and>
      outbox (state_of (onmessage c msg s)) = outbox s)"
proof -
  have sc: "serverContent (only_updateClarity msg) = serverContent msg"
    by (simp add: only_updateClarity_def)
  have ht: "\<And>t. handle_transcription c (only_updateClarity msg) t = handle_transcription c msg t"
    by (rule handle_transcription_cong) (simp add: sc)
  have "onmessage_settled add c msg r now s =
          onmessage_settled add c (only_updateClarity msg) r now s"
    by (cases r)
       (simp_all add: onmessage_settled_def onmessage_def Let_def audioData_only_updateClarity
          handle_tool_calls_only_updateClarity ht split: option.splits)
  moreover have "toolCall msg = Some tc \<longrightarrow> \<not> list_ex is_updateClarity (functionCalls tc) \<longrightarrow>
      clarityUpdates (state_of (onmessage c msg s)) = clarityUpdates s \<and>
      outbox (state_of (onmessage c msg s)) = outbox s"
    by (auto simp add: onmessage_def Let_def handle_transcription_fields handle_tool_calls_eq
          list_ex_iff filter_empty_conv split: option.splits)
  ultimately show ?thesis by blast
qed

text \<open>
  A frame with the one call \<^verbatim>\<open>setTopic\<close> publishes and sends nothing; with the clarity call
  after it, the frame is handled as the frame with the clarity call alone.
\<close>

theorem other_function_calls_dropped_witness:
  "toolCall (tool_frame [other_call]) = Some \<lparr>functionCalls = [other_call]\<rparr> \<and>
   \<not> list_ex is_updateClarity [other_call] \<and>
   clarityUpdates (state_of (onmessage 2 (tool_frame [other_call]) live_session)) = [] \<and>
   outbox (state_of (onmessage 2 (tool_frame [other_call]) live_session)) = [] \<and>
   onmessage_settled (+) 2 (tool_frame [other_call, clarity_call]) (Inr \<lparr>duration = 0\<rparr>) 0
       live_session =
     onmessage_settled (+) 2 (tool_frame [clarity_call]) (Inr \<lparr>duration = 0\<rparr>) 0 live_session"
proof -
  have h: "toolCall (tool_frame [other_call]) = Some \<lparr>functionCalls = [other_call]\<rparr>"
    by (simp add: tool_frame_def)
  have n: "\<not> is_updateClarity other_call" "is_updateClarity clarity_call"
    by (simp_all add: is_updateClarity_def other_call_def clarity_call_def lit_def)
  have o: "only_updateClarity (tool_frame [other_call, clarity_call]) = tool_frame [clarity_call]"
    by (simp add: only_updateClarity_def tool_frame_def n)
  have e: "outbox live_session = []" "clarityUpdates live_session = []"
    by (simp_all add: live_session_eq)
  from other_function_calls_dropped
         [of "(+)" 2 "tool_frame [other_call]" "Inr \<lparr>duration = 0\<rparr>" 0 live_session
             "\<lparr>functionCalls = [other_call]\<rparr>"]
       other_function_calls_dropped
         [of "(+)" 2 "tool_frame [other_call, clarity_call]" "Inr \<lparr>duration = 0\<rparr>" 0
             live_session "\<lparr>functionCalls = [other_call]\<rparr>"]
       h
  show ?thesis by (simp add: n o e)
qed

subsection \<open>The audio payload of a frame\<close>

text \<open>
  C9. When the model turn of a frame has parts, the audio payload is the inline data of the
  first part and of no other: replacing the parts by the first part alone changes nothing in
  how the frame is handled. When the first part carries no inline data, the handler does not
  suspend on a decode and returns with no source started, the cursor and the set of sources
  as they were.
\<close>

theorem only_first_part_examined:
  assumes "serverContent msg = Some sc" and "modelTurn sc = Some mt" and "parts mt = Some (p # ps)"
  shows "audioData msg = Option.bind (inlineData p) data \<and>
         onmessage_settled add c msg r now s =
           onmessage_settled add c
             (msg\<lparr>serverContent := Some (sc\<lparr>modelTurn := Some (mt\<lparr>parts := Some [p]\<rparr>)\<rparr>)\<rparr>)
             r now s \<and>
         (inlineData p = None \<longrightarrow>
            onmessage c msg s = Returned (handle_transcription c msg (handle_tool_calls msg s)) \<and>
            playbackStarts (state_of (onmessage c msg s)) = playbackStarts s \<and>
            nextStartTimeRef (state_of (onmessage c msg s)) = nextStartTimeRef s \<and>
            sourceNodesRef (state_of (onmessage c msg s)) = sourceNodesRef s)"
proof -
  let ?m = "msg\<lparr>serverContent := Some (sc\<lparr>modelTurn := Some (mt\<lparr>parts := Some [p]\<rparr>)\<rparr>)\<rparr>"
  have a: "audioData msg = Option.bind (inlineData p) data"
    using assms by (simp add: audioData_def)
  have a': "audioData ?m = Option.bind (inlineData p) data"
    by (simp add: audioData_def)
  have t: "\<And>u. handle_transcription c ?m u = handle_transcription c msg u"
    using assms(1)
    by (simp add: handle_transcription_def commit_transcription_def append_transcription_def)
  have h: "\<And>u. handle_tool_calls ?m u = handle_tool_calls msg u"
    by (simp add: handle_tool_calls_def)
  have b: "onmessage_settled add c msg r now s = onmessage_settled add c ?m r now s"
    by (cases r)
       (simp_all add: onmessage_settled_def onmessage_def Let_def a a' t h split: option.splits)
  have d: "inlineData p = None \<longrightarrow>
            onmessage c msg s = Returned (handle_transcription c msg (handle_tool_calls msg s)) \<and>
            playbackStarts (state_of (onmessage c msg s)) = playbackStarts s \<and>
            nextStartTimeRef (state_of (onmessage c msg s)) = nextStartTimeRef s \<and>
            sourceNodesRef (state_of (onmessage c msg s)) = sourceNodesRef s"
    by (simp add: onmessage_def Let_def a handle_transcription_fields handle_tool_calls_fields)
  from a b d show ?thesis by blast
qed

text \<open>
  A frame whose second part carries audio and whose first part carries none: no payload is
  found, the handler returns at once and nothing is scheduled.
\<close>

theorem only_first_part_examined_witness:
  "serverContent second_part_audio =
     Some \<lparr>modelTurn = Some \<lparr>parts = Some [\<lparr>inlineData = None\<rparr>,
                                            \<lparr>inlineData = Some \<lparr>data = Some (lit ''AAAA'')\<rparr>\<rparr>]\<rparr>,
           inputTranscription = None, outputTranscription = None, turnComplete = None\<rparr> \<and>
   audioData second_part_audio = None \<and>
   onmessage 2 second_part_audio live_session = Returned live_session \<and>
   playbackStarts (state_of (onmessage 2 second_part_audio live_session)) = [] \<and>
   sourceNodesRef (state_of (onmessage 2 second_part_audio live_session)) = []"
proof -
  let ?p = "\<lparr>inlineData = None\<rparr>"
  let ?q = "\<lparr>inlineData = Some \<lparr>data = Some (lit ''AAAA'')\<rparr>\<rparr>"
  let ?mt = "\<lparr>parts = Some [?p, ?q]\<rparr>"
  let ?sc = "\<lparr>modelTurn = Some ?mt, inputTranscription = None, outputTranscription = None,
              turnComplete = None\<rparr>"
  have h1: "serverContent second_part_audio = Some ?sc"
    by (simp add: second_part_audio_def)
  have h2: "modelTurn ?sc = Some ?mt" by simp
  have h3: "parts ?mt = Some (?p # [?q])" by simp
  have t: "handle_transcription 2 second_part_audio
             (handle_tool_calls second_part_audio live_session) = live_session"
    by (simp add: handle_tool_calls_def handle_transcription_def append_transcription_def
          commit_transcription_def second_part_audio_def Let_def)
  have e: "playbackStarts live_session = []" "sourceNodesRef live_session = []"
    by (simp_all add: live_session_eq)
  from only_first_part_examined
         [OF h1 h2 h3, of "(+)" 2 "Inr \<lparr>duration = 0\<rparr>" 0 live_session] h1
  show ?thesis by (simp add: t e)
qed

subsection \<open>Repeated teardown\<close>

text \<open>
  A call that ran to its end without rejecting leaves everything released, and a call made
  after it returns at once with the state unchanged.
\<close>

lemma disconnect_idle:
  assumes "mediaStreamRef s = None" "videoIntervalRef s = None" "inputAudioContextRef s = None"
    "outputAudioContextRef s = None" "sessionRef s = None" "connectionState s = DISCONNECTED"
  shows "disconnect s = Returned s"
proof -
  have "s\<lparr>sessionRef := None, connectionState := DISCONNECTED\<rparr> = s"
    using assms by simp
  then show ?thesis
    using assms
    by (simp add: disconnect_def disconnect_output_def disconnect_tail_def stop_video_loop_def
          stop_media_stream_def)
qed

lemma stops_fields:
  "mediaStreamRef (stop_video_loop (stop_media_stream s)) = None"
  "videoIntervalRef (stop_video_loop (stop_media_stream s)) = None"
  "inputAudioContextRef (stop_video_loop (stop_media_stream s)) = inputAudioContextRef s"
  "outputAudioContextRef (stop_video_loop (stop_media_stream s)) = outputAudioContextRef s"
  by (simp_all add: stop_video_loop_def stop_media_stream_def split: option.splits)

lemma output_released:
  assumes "mediaStreamRef s = None" "videoIntervalRef s = None" "inputAudioContextRef s = None"
    and "resume_once (disconnect_output s) = Returned s'"
  shows "released s'"
proof (cases "outputAudioContextRef s")
  case None
  with assms show ?thesis
    by (auto simp add: disconnect_output_def disconnect_tail_def released_def)
next
  case (Some c)
  with assms show ?thesis
    by (cases "c \<in> closedContexts (stop_all_sources s)")
       (auto simp add: disconnect_output_def disconnect_tail_def released_def ctx_close_def
          stop_all_sources_def fold_try_stop Let_def)
qed

lemma disconnect_settled_released:
  assumes "disconnect_settled s = Returned s'"
  shows "released s' \<and> disconnect s' = Returned s'"
proof -
  let ?s1 = "stop_video_loop (stop_media_stream s)"
  have r: "released s'"
  proof (cases "inputAudioContextRef s")
    case None
    then have d: "disconnect s = disconnect_output ?s1"
      by (simp add: disconnect_def Let_def stops_fields)
    show ?thesis
    proof (cases "resume_once (disconnect_output ?s1)")
      case (Returned t)
      with assms d have "t = s'" by (simp add: disconnect_settled_def)
      with Returned show ?thesis
        using output_released [of ?s1 s'] None by (simp add: stops_fields)
    next
      case (Awaiting k t)
      then show ?thesis
        by (cases "outputAudioContextRef ?s1")
           (auto simp add: disconnect_output_def ctx_close_def Let_def split: if_splits)
    next
      case (Rejected e t)
      with assms d show ?thesis by (simp add: disconnect_settled_def)
    qed
  next
    case (Some c)
    show ?thesis
    proof (cases "c \<in> closedContexts ?s1")
      case True
      with Some assms show ?thesis
        by (simp add: disconnect_settled_def disconnect_def Let_def stops_fields
              ctx_close_def)
    next
      case False
      let ?s2 = "?s1\<lparr>closedContexts := insert c (closedContexts ?s1),
                      inputAudioContextRef := None\<rparr>"
      from False Some have "resume_once (disconnect s) = disconnect_output ?s2"
        by (simp add: disconnect_def Let_def stops_fields ctx_close_def)
      with assms have "resume_once (disconnect_output ?s2) = Returned s'"
        by (simp add: disconnect_settled_def)
      then show ?thesis
        by (rule output_released [rotated 3]) (simp_all add: stops_fields)
    qed
  qed
  then have "disconnect s' = Returned s'"
    by (intro disconnect_idle) (simp_all add: released_def)
  with r show ?thesis by simp
qed

text \<open>
  C6. On a connected session the first \<^verbatim>\<open>disconnect()\<close> suspends on closing the input
  context and has not yet set the ref to null. A second call made before the first resumes
  (the second of two calls in a row, or the close callback after the error callback) finds
  the ref still set, closes the same context again, and its promise rejects with
  InvalidStateError.
\<close>

theorem second_disconnect_rejects:
  "disconnect live_session =
     Awaiting AfterInputClose
       (live_session\<lparr>stoppedStreams := {7}, mediaStreamRef := None, videoIntervalRef := None,
                     closedContexts := {0}\<rparr>) \<and>
   rejection (disconnect (state_of (disconnect live_session))) = Some InvalidStateError \<and>
   rejection (onclose (state_of (onerror live_session))) = Some InvalidStateError"
  unfolding live_session_eq
  by (simp add: session_defs)

subsection \<open>The audio-only toggle\<close>

lemma step_audio_only:
  assumes "\<not> is_Connect e" and "connect_isAudioOnly s" and "videoIntervalRef s = None"
  shows "connect_isAudioOnly (step add e s) \<and> videoIntervalRef (step add e s) = None \<and>
         filter is_MediaJpeg (outbox (step add e s)) = filter is_MediaJpeg (outbox s)"
proof (cases e)
  case (GotUserMedia r)
  with assms show ?thesis by (cases r) (simp_all add: disconnect_fields Let_def)
next
  case (OnMessage c msg)
  with assms show ?thesis
    by (simp add: onmessage_def Let_def handle_transcription_fields handle_tool_calls_fields
          handle_tool_calls_eq acknowledgement_def filter_empty_conv split: option.splits)
next
  case (Decoded k r now)
  with assms show ?thesis
    by (cases k; cases r) (simp_all add: handle_transcription_fields schedule_playback_eq)
next
  case (DisconnectResume k)
  with assms show ?thesis by (simp add: disconnect_resume_fields)
qed (use assms in \<open>simp_all add: setIsAudioOnly_def sync_isAudioOnlyRef_def onopen_def Let_def
       onaudioprocess_def onended_def onclose_def onerror_def disconnect_fields
       sendTextMessage_def split: option.splits\<close>)

lemma run_audio_only:
  "\<forall>e\<in>set es. \<not> is_Connect e \<Longrightarrow> connect_isAudioOnly s \<Longrightarrow> videoIntervalRef s = None \<Longrightarrow>
   filter is_MediaJpeg (outbox (run add es s)) = filter is_MediaJpeg (outbox s)"
proof (induction es arbitrary: s)
  case Nil
  show ?case by simp
next
  case (Cons e es)
  have st: "connect_isAudioOnly (step add e s) \<and> videoIntervalRef (step add e s) = None \<and>
         filter is_MediaJpeg (outbox (step add e s)) = filter is_MediaJpeg (outbox s)"
    using Cons.prems by (intro step_audio_only) simp_all
  have "filter is_MediaJpeg (outbox (run add es (step add e s))) =
          filter is_MediaJpeg (outbox (step add e s))"
    using Cons.prems st by (intro Cons.IH) simp_all
  with st show ?case by simp
qed

text \<open>
  C7. Once the toggle is set and the ref has taken its value, a tick of the frame timer
  changes nothing. Setting the toggle either way leaves both audio contexts, the processor
  and the media stream as they were, closes and stops nothing, and the audio tap still sends
  its block. And when \<^verbatim>\<open>connect\<close> is called with the toggle set (and no timer registered),
  no run of later callbacks of that session, whatever toggling it contains, sends a frame.
\<close>

theorem audio_only_mutes_frames:
  "run add [SetIsAudioOnly True, SyncIsAudioOnlyRef, VideoTick frame] s =
     run add [SetIsAudioOnly True, SyncIsAudioOnlyRef] s \<and>
   inputAudioContextRef (run add [SetIsAudioOnly b, SyncIsAudioOnlyRef] s) =
     inputAudioContextRef s \<and>
   outputAudioContextRef (run add [SetIsAudioOnly b, SyncIsAudioOnlyRef] s) =
     outputAudioContextRef s \<and>
   closedContexts (run add [SetIsAudioOnly b, SyncIsAudioOnlyRef] s) = closedContexts s \<and>
   audioProcessorRef (run add [SetIsAudioOnly b, SyncIsAudioOnlyRef] s) = audioProcessorRef s \<and>
   mediaStreamRef (run add [SetIsAudioOnly b, SyncIsAudioOnlyRef] s) = mediaStreamRef s \<and>
   stoppedStreams (run add [SetIsAudioOnly b, SyncIsAudioOnlyRef] s) = stoppedStreams s \<and>
   (inputAudioContextRef s \<noteq> None \<longrightarrow>
      outbox (run add [SetIsAudioOnly b, SyncIsAudioOnlyRef, OnAudioProcess pcmBlob] s) =
        outbox s @ [MediaPcm pcmBlob]) \<and>
   (truthy apiKey \<and> isAudioOnly s0 \<and> videoIntervalRef s0 = None \<and>
    (\<forall>e\<in>set es. \<not> is_Connect e) \<longrightarrow>
      filter is_MediaJpeg (outbox (run add (Connect apiKey # es) s0)) =
        filter is_MediaJpeg (outbox s0))"
proof -
  have "filter is_MediaJpeg (outbox (run add es (state_of (connect apiKey s0)))) =
          filter is_MediaJpeg (outbox s0)"
    if "truthy apiKey" "isAudioOnly s0" "videoIntervalRef s0 = None"
       "\<forall>e\<in>set es. \<not> is_Connect e"
  proof -
    have "filter is_MediaJpeg (outbox (run add es (state_of (connect apiKey s0)))) =
            filter is_MediaJpeg (outbox (state_of (connect apiKey s0)))"
      using that by (intro run_audio_only) (simp_all add: connect_def Let_def)
    then show ?thesis using that by (simp add: connect_def Let_def)
  qed
  then show ?thesis
    by (auto simp add: setIsAudioOnly_def sync_isAudioOnlyRef_def video_tick_def
          onaudioprocess_def split: option.splits)
qed

text \<open>
  On the connected session with video a tick sends the frame; after the toggle it sends
  nothing while the audio tap goes on. A session connected in audio-only mode sends no frame
  even after the toggle is set back and the timer is asked to fire.
\<close>

theorem audio_only_mutes_frames_witness:
  "outbox (run (+) [VideoTick (Some (lit ''/9j/''))] live_session) = [MediaJpeg (lit ''/9j/'')] \<and>
   outbox (run (+) [SetIsAudioOnly True, SyncIsAudioOnlyRef, VideoTick (Some (lit ''/9j/''))]
             live_session) = [] \<and>
   inputAudioContextRef live_session \<noteq> None \<and>
   outbox (run (+) [SetIsAudioOnly True, SyncIsAudioOnlyRef, OnAudioProcess [1, 2]] live_session) =
     [MediaPcm [1, 2]] \<and>
   truthy (lit ''key'') \<and> isAudioOnly audio_only_start \<and>
   videoIntervalRef audio_only_start = None \<and>
   list_all (\<lambda>e. \<not> is_Connect e) toggled_back \<and>
   outbox (run (+) (Connect (lit ''key'') # toggled_back) audio_only_start) = [MediaPcm [0, 0]] \<and>
   filter is_MediaJpeg (outbox (run (+) (Connect (lit ''key'') # toggled_back) audio_only_start)) = []"
proof -
  have t: "outbox (run (+) [VideoTick (Some (lit ''/9j/''))] live_session) = [MediaJpeg (lit ''/9j/'')]"
    unfolding live_session_eq by (simp add: video_tick_def)
  have l: "inputAudioContextRef live_session \<noteq> None" "outbox live_session = []"
    by (simp_all add: live_session_eq)
  have a: "truthy (lit ''key'')" "isAudioOnly audio_only_start"
          "videoIntervalRef audio_only_start = None" "outbox audio_only_start = []"
    by (simp_all add: audio_only_start_def initial_def setIsAudioOnly_def
          sync_isAudioOnlyRef_def truthy_def lit_def)
  have n: "\<forall>e\<in>set toggled_back. \<not> is_Connect e"
    by (simp add: toggled_back_def)
  have o: "outbox (run (+) (Connect (lit ''key'') # toggled_back) audio_only_start) = [MediaPcm [0, 0]]"
    by (simp add: toggled_back_def audio_only_start_def initial_def setIsAudioOnly_def
          sync_isAudioOnlyRef_def connect_def truthy_def lit_def onopen_def onaudioprocess_def
          Let_def)
  have m: "outbox (run (+) [SetIsAudioOnly True, SyncIsAudioOnlyRef, VideoTick (Some (lit ''/9j/''))]
                    live_session) = []"
    using audio_only_mutes_frames
            [of "(+)" "Some (lit ''/9j/'')" live_session True "[1, 2]" "lit ''key''"
                audio_only_start toggled_back]
    by (simp add: l setIsAudioOnly_def sync_isAudioOnlyRef_def)
  from audio_only_mutes_frames
         [of "(+)" "Some (lit ''/9j/'')" live_session True "[1, 2]" "lit ''key''"
             audio_only_start toggled_back]
       t l a n o m
  show ?thesis by (simp add: list_all_iff)
qed

subsection \<open>Connecting without a credential\<close>

text \<open>
  C8. With no API key (the empty string, the only falsy string) \<^verbatim>\<open>connect\<close> returns at once
  and the whole state is as it was: the connection state, every ref, and what has been sent.
\<close>

theorem connect_without_credential:
  "connect [] s = Returned s \<and> run add [Connect []] s = s"
  by (simp add: connect_def truthy_def)

text \<open>On a fresh hook the state stays Disconnected, with no context created.\<close>

theorem connect_without_credential_witness:
  "connect [] initial = Returned initial \<and>
   connectionState (run (+) [Connect []] initial) = DISCONNECTED \<and>
   inputAudioContextRef (run (+) [Connect []] initial) = None \<and>
   sessionRef (run (+) [Connect []] initial) = None"
  using connect_without_credential [of initial "(+)"]
  by (simp add: initial_def)

end
